theory Spec2Isabelle
  imports Main "HOL-Library.Word"
begin

section \<open>JavaScript strings\<close>

text \<open>
  A JavaScript string is a sequence of UTF-16 code units; \<open>charCodeAt\<close> reads one of
  them. The embedding keeps that: a string is a list of 16-bit words. \<open>js\<close> turns an
  Isabelle literal into such a string, one code unit per character.
\<close>

type_synonym jschar = "16 word"
type_synonym jsstring = "jschar list"

definition js :: "string \<Rightarrow> jsstring" where
  "js s = map of_char s"

text \<open>Characters that an Isabelle string literal cannot hold.\<close>

definition backslash :: jsstring where
  "backslash = [0x5C]"

definition squote :: jsstring where
  "squote = [0x27]"

text \<open>\<open>str.startsWith(p)\<close> and \<open>str.endsWith(p)\<close>.\<close>

fun startsWith :: "jsstring \<Rightarrow> jsstring \<Rightarrow> bool" where
  "startsWith s [] = True"
| "startsWith [] (p # ps) = False"
| "startsWith (x # xs) (p # ps) = (x = p \<and> startsWith xs ps)"

definition endsWith :: "jsstring \<Rightarrow> jsstring \<Rightarrow> bool" where
  "endsWith s p = startsWith (rev s) (rev p)"

text \<open>\<open>str.indexOf(p)\<close>: the first index where \<open>p\<close> occurs, \<open>-1\<close> when it does not.\<close>

fun indexOf :: "jsstring \<Rightarrow> jsstring \<Rightarrow> int" where
  "indexOf [] p = (if p = [] then 0 else -1)"
| "indexOf (x # xs) p =
     (if startsWith (x # xs) p then 0
      else (let i = indexOf xs p in if i < 0 then -1 else i + 1))"

definition includes_js :: "jsstring \<Rightarrow> jsstring \<Rightarrow> bool" where
  "includes_js s p = (indexOf s p \<noteq> -1)"

text \<open>
  \<open>str.substring(start, end)\<close>: both indices are clamped to \<open>0..length\<close> and swapped
  when \<open>start > end\<close>. \<open>str.substring(start)\<close> runs to the end of the string.
\<close>

definition clamp_index :: "jsstring \<Rightarrow> int \<Rightarrow> nat" where
  "clamp_index s i = nat (min (max i 0) (int (length s)))"

definition substring :: "jsstring \<Rightarrow> int \<Rightarrow> int \<Rightarrow> jsstring" where
  "substring s start end =
     (let a = clamp_index s start; b = clamp_index s end;
          lo = min a b; hi = max a b
      in take (hi - lo) (drop lo s))"

definition substring_from :: "jsstring \<Rightarrow> int \<Rightarrow> jsstring" where
  "substring_from s start = substring s start (int (length s))"

text \<open>
  \<open>str.trim()\<close> removes white space and line terminators from both ends:
  TAB, LF, VT, FF, CR, SP, NBSP, U+1680, U+2000..U+200A, U+2028, U+2029, U+202F,
  U+205F, U+3000 and U+FEFF.
\<close>

definition isWhiteSpace :: "jschar \<Rightarrow> bool" where
  "isWhiteSpace c =
     (c \<in> {0x09, 0x0A, 0x0B, 0x0C, 0x0D, 0x20, 0xA0, 0x1680, 0x2028, 0x2029, 0x202F,
            0x205F, 0x3000, 0xFEFF}
      \<or> (0x2000 \<le> c \<and> c \<le> 0x200A))"

definition trim :: "jsstring \<Rightarrow> jsstring" where
  "trim s = rev (dropWhile isWhiteSpace (rev (dropWhile isWhiteSpace s)))"

text \<open>
  \<open>str.split(sep)\<close> for a non-empty separator: the pieces between the occurrences of
  \<open>sep\<close>, read left to right; a string without the separator is one piece, the empty
  string too. With the empty separator, JavaScript splits into code units.
\<close>

fun split_go :: "jsstring \<Rightarrow> jsstring \<Rightarrow> jsstring \<Rightarrow> jsstring list" where
  "split_go sep cur [] = [rev cur]"
| "split_go sep cur (x # xs) =
     (if sep \<noteq> [] \<and> startsWith (x # xs) sep
      then rev cur # split_go sep [] (drop (length sep - 1) xs)
      else split_go sep (x # cur) xs)"

definition split_js :: "jsstring \<Rightarrow> jsstring \<Rightarrow> jsstring list" where
  "split_js s sep = (if sep = [] then map (\<lambda>c. [c]) s else split_go sep [] s)"

text \<open>\<open>arr.join(sep)\<close>.\<close>

fun join :: "jsstring list \<Rightarrow> jsstring \<Rightarrow> jsstring" where
  "join [] sep = []"
| "join [x] sep = x"
| "join (x # y # ys) sep = x @ sep @ join (y # ys) sep"

text \<open>
  \<open>str.replace(pattern, replacement)\<close> with a string pattern replaces the first
  occurrence only. In the replacement text \<open>$$\<close> stands for a dollar sign, \<open>$&\<close> for
  the matched text, \<open>$`\<close> for the text before the match and \<open>$'\<close> for the text after
  it; a string pattern has no groups, so every other \<open>$\<close> is kept as it is.
\<close>

fun getSubstitution :: "jsstring \<Rightarrow> jsstring \<Rightarrow> jsstring \<Rightarrow> jsstring \<Rightarrow> jsstring" where
  "getSubstitution matched pre post [] = []"
| "getSubstitution matched pre post [c] = [c]"
| "getSubstitution matched pre post (c # d # r) =
     (if c = 0x24 \<and> d = 0x24 then 0x24 # getSubstitution matched pre post r
      else if c = 0x24 \<and> d = 0x26 then matched @ getSubstitution matched pre post r
      else if c = 0x24 \<and> d = 0x60 then pre @ getSubstitution matched pre post r
      else if c = 0x24 \<and> d = 0x27 then post @ getSubstitution matched pre post r
      else c # getSubstitution matched pre post (d # r))"

definition replace_js :: "jsstring \<Rightarrow> jsstring \<Rightarrow> jsstring \<Rightarrow> jsstring" where
  "replace_js s pat repl =
     (let i = indexOf s pat in
      if i < 0 then s
      else (let pre = take (nat i) s; post = drop (nat i + length pat) s
            in pre @ getSubstitution pat pre post repl @ post))"

section \<open>The scope token\<close>

text \<open>
  JavaScript numbers are doubles; every value below stays an integer of magnitude under
  \<open>2^53\<close>, so the arithmetic is exact and is modelled on \<open>int\<close>. \<open>toInt32\<close> is the
  conversion that \<open><<\<close> and \<open>&\<close> apply to their operands and results: the value modulo
  \<open>2^32\<close>, read as two's complement.
\<close>

definition toInt32 :: "int \<Rightarrow> int" where
  "toInt32 x = (x + 2 ^ 31) mod 2 ^ 32 - 2 ^ 31"

text \<open>\<open>a << n\<close> and \<open>a & a\<close> on numbers.\<close>

definition shiftLeft :: "int \<Rightarrow> nat \<Rightarrow> int" where
  "shiftLeft a n = toInt32 (toInt32 a * 2 ^ (n mod 32))"

definition and_self :: "int \<Rightarrow> int" where
  "and_self a = toInt32 a"

text \<open>\<open>n.toString(16)\<close> for a non-negative integer: lower-case digits, no leading zero.\<close>

definition hexDigit :: "nat \<Rightarrow> jschar" where
  "hexDigit d = (if d < 10 then of_nat (48 + d) else of_nat (87 + d))"

fun toString16 :: "nat \<Rightarrow> jsstring" where
  "toString16 n = (if n < 16 then [hexDigit n] else toString16 (n div 16) @ [hexDigit (n mod 16)])"

declare toString16.simps [simp del]

text \<open>
  One turn of the loop of \<open>simpleHash\<close>:
  \<^verbatim>\<open>hash = (hash << 5) - hash + char; hash = hash & hash;\<close>
\<close>

definition hash_step :: "int \<Rightarrow> jschar \<Rightarrow> int" where
  "hash_step hash c = and_self (shiftLeft hash 5 - hash + uint c)"

definition simpleHash :: "jsstring \<Rightarrow> jsstring" where
  "simpleHash str = toString16 (nat \<bar>foldl hash_step 0 str\<bar>)"

text \<open>The token as \<open>transform\<close> computes it: \<open>simpleHash(id).substring(0, 8)\<close>.\<close>

definition ScopeToken :: "jsstring \<Rightarrow> jsstring" where
  "ScopeToken ident = substring (simpleHash ident) 0 8"

section \<open>The CSS scoper\<close>

text \<open>
  \<open>transformScopedCss\<close> walks the lines of the style text with four variables.
  \<open>currentRule\<close> is set to the empty string and never read again.
\<close>

record css_state =
  processedCss :: jsstring
  inRule :: bool
  currentRule :: jsstring
  currentSelectors :: "jsstring list"

text \<open>The function mapped over the selectors of a rule.\<close>

definition transformSelector :: "jsstring \<Rightarrow> jsstring \<Rightarrow> jsstring" where
  "transformSelector scopeId selector =
     (if startsWith selector (js ''@'') then selector
      else if includes_js selector (js '':root'')
      then replace_js selector (js '':root'') (js ''['' @ scopeId @ js '']'')
      else js ''['' @ scopeId @ js ''] '' @ selector)"

text \<open>
  What the scoper emits for a line that opens a rule: the selectors before the first
  brace, split at commas, trimmed, transformed and joined again, then the rest of the
  line from the brace on.
\<close>

definition selectorsOf :: "jsstring \<Rightarrow> jsstring list" where
  "selectorsOf trimmedLine =
     (let selectorPart = trim (substring trimmedLine 0 (indexOf trimmedLine (js ''{'')))
      in map trim (split_js selectorPart (js '','')))"

definition ruleStart :: "jsstring \<Rightarrow> jsstring \<Rightarrow> jsstring" where
  "ruleStart scopeId trimmedLine =
     (let transformedSelectors = map (transformSelector scopeId) (selectorsOf trimmedLine)
      in join transformedSelectors (js '', '') @ js '' {''
         @ substring_from trimmedLine (indexOf trimmedLine (js ''{'') + 1)
         @ js ''\<newline>'')"

text \<open>
  The body of the loop over the lines. The last branch of the source tests for an
  at-rule line and does the same in both of its arms.
\<close>

definition css_line :: "jsstring \<Rightarrow> css_state \<Rightarrow> jsstring \<Rightarrow> css_state" where
  "css_line scopeId st line =
     (let trimmedLine = trim line in
      if trimmedLine = [] then st\<lparr>processedCss := processedCss st @ js ''\<newline>''\<rparr>
      else if includes_js trimmedLine (js ''{'') \<and> \<not> inRule st then
        st\<lparr>inRule := True,
           currentSelectors := selectorsOf trimmedLine,
           processedCss := processedCss st @ ruleStart scopeId trimmedLine\<rparr>
      else if includes_js trimmedLine (js ''}'') \<and> inRule st then
        st\<lparr>inRule := False,
           currentSelectors := [],
           processedCss := processedCss st @ trimmedLine @ js ''\<newline>''\<rparr>
      else if startsWith trimmedLine (js ''@'') \<and> includes_js trimmedLine (js ''{'')
      then st\<lparr>processedCss := processedCss st @ trimmedLine @ js ''\<newline>''\<rparr>
      else st\<lparr>processedCss := processedCss st @ trimmedLine @ js ''\<newline>''\<rparr>)"

definition css_init :: css_state where
  "css_init = \<lparr>processedCss = [], inRule = False, currentRule = [], currentSelectors = []\<rparr>"

definition transformScopedCss :: "jsstring \<Rightarrow> jsstring \<Rightarrow> jsstring" where
  "transformScopedCss css scopeId =
     processedCss (foldl (css_line scopeId) css_init (split_js css (js ''\<newline>'')))"

section \<open>Regular expressions\<close>

text \<open>
  The patterns of the plugin use literals, character classes, sequence, alternation,
  capturing groups and the quantifiers \<open>?\<close>, \<open>*\<close>, \<open>+\<close>, \<open>*?\<close> and \<open>+?\<close>.
  \<open>Star True r\<close> is the greedy \<open>r*\<close>, \<open>Star False r\<close> the lazy \<open>r*?\<close>; \<open>r+\<close> is \<open>r\<close>
  followed by \<open>r*\<close>.
\<close>

datatype re =
    Lit jsstring
  | Cls "jschar \<Rightarrow> bool"
  | Seq re re
  | Alt re re
  | Opt re
  | Star bool re
  | Grp nat re

definition Plus :: "bool \<Rightarrow> re \<Rightarrow> re" where
  "Plus greedy r = Seq r (Star greedy r)"

fun seqs :: "re list \<Rightarrow> re" where
  "seqs [] = Lit []"
| "seqs [r] = r"
| "seqs (r # rs) = Seq r (seqs rs)"

type_synonym captures = "nat \<rightharpoonup> jsstring"

text \<open>
  JavaScript matches by backtracking: the alternatives of a pattern are tried in a fixed
  order and the first that lets the rest of the pattern match wins. \<open>ms r c s\<close> lists, in
  that order, every way \<open>r\<close> matches at the start of \<open>s\<close>: the captures after the match
  and the text left. An iteration of a star that consumes nothing is not repeated.
  No group of the plugin's patterns stands under a star, so the reset of captures at
  each iteration has nothing to reset.
\<close>

fun star_iter ::
  "bool \<Rightarrow> nat \<Rightarrow> (captures \<Rightarrow> jsstring \<Rightarrow> (captures \<times> jsstring) list)
     \<Rightarrow> captures \<Rightarrow> jsstring \<Rightarrow> (captures \<times> jsstring) list" where
  "star_iter greedy 0 m c s = [(c, s)]"
| "star_iter greedy (Suc n) m c s =
     (let more = concat (map (\<lambda>(c', s'). if length s' < length s
                                            then star_iter greedy n m c' s' else [])
                             (m c s))
      in if greedy then more @ [(c, s)] else (c, s) # more)"

primrec ms :: "re \<Rightarrow> captures \<Rightarrow> jsstring \<Rightarrow> (captures \<times> jsstring) list" where
  "ms (Lit l) c s = (if startsWith s l then [(c, drop (length l) s)] else [])"
| "ms (Cls p) c s = (case s of [] \<Rightarrow> [] | x # xs \<Rightarrow> if p x then [(c, xs)] else [])"
| "ms (Seq a b) c s = concat (map (\<lambda>(c', s'). ms b c' s') (ms a c s))"
| "ms (Alt a b) c s = ms a c s @ ms b c s"
| "ms (Opt r) c s = ms r c s @ [(c, s)]"
| "ms (Star greedy r) c s = star_iter greedy (length s) (ms r) c s"
| "ms (Grp k r) c s =
     map (\<lambda>(c', s'). (c'(k \<mapsto> take (length s - length s') s), s')) (ms r c s)"

text \<open>
  One match attempt at the start of \<open>s\<close>: the matched text, the captures and the text
  after the match.
\<close>

definition match_here :: "re \<Rightarrow> jsstring \<Rightarrow> (jsstring \<times> captures \<times> jsstring) option" where
  "match_here r s =
     (case ms r Map.empty s of
        [] \<Rightarrow> None
      | (c, rest) # _ \<Rightarrow> Some (take (length s - length rest) s, c, rest))"

text \<open>
  \<open>re.exec(str)\<close> tries every start index from left to right. The result holds the
  text before the match as well.
\<close>

fun exec_from :: "re \<Rightarrow> jsstring \<Rightarrow> jsstring
    \<Rightarrow> (jsstring \<times> jsstring \<times> captures \<times> jsstring) option" where
  "exec_from r skipped [] =
     (case match_here r [] of
        None \<Rightarrow> None
      | Some (m, c, rest) \<Rightarrow> Some (rev skipped, m, c, rest))"
| "exec_from r skipped (x # xs) =
     (case match_here r (x # xs) of
        None \<Rightarrow> exec_from r (x # skipped) xs
      | Some (m, c, rest) \<Rightarrow> Some (rev skipped, m, c, rest))"

definition exec :: "re \<Rightarrow> jsstring \<Rightarrow> (jsstring \<times> jsstring \<times> captures \<times> jsstring) option" where
  "exec r s = exec_from r [] s"

text \<open>
  \<open>str.match(re)\<close> without the \<open>g\<close> flag is \<open>re.exec(str)\<close>; the model keeps the
  captures, which is all the plugin reads from the result.
\<close>

definition match_js :: "jsstring \<Rightarrow> re \<Rightarrow> captures option" where
  "match_js s r = (case exec r s of None \<Rightarrow> None | Some (pre, m, c, rest) \<Rightarrow> Some c)"

text \<open>
  \<open>str.replace(re, f)\<close> without the \<open>g\<close> flag replaces the first match; with it,
  every match from left to right, stepping one code unit past an empty match. The
  replacement is a function of the matched text and the captures. The replacement
  strings the plugin passes hold no \<open>$\<close>, so they are constant functions.
\<close>

definition replace_first :: "re \<Rightarrow> (jsstring \<Rightarrow> captures \<Rightarrow> jsstring) \<Rightarrow> jsstring \<Rightarrow> jsstring" where
  "replace_first r f s =
     (case exec r s of
        None \<Rightarrow> s
      | Some (pre, m, c, rest) \<Rightarrow> pre @ f m c @ rest)"

fun replace_all :: "re \<Rightarrow> (jsstring \<Rightarrow> captures \<Rightarrow> jsstring) \<Rightarrow> jsstring \<Rightarrow> jsstring" where
  "replace_all r f [] =
     (case match_here r [] of None \<Rightarrow> [] | Some (m, c, rest) \<Rightarrow> f m c)"
| "replace_all r f (x # xs) =
     (case match_here r (x # xs) of
        None \<Rightarrow> x # replace_all r f xs
      | Some (m, c, rest) \<Rightarrow>
          if length rest < length (x # xs) then f m c @ replace_all r f rest
          else f m c @ x # replace_all r f xs)"

text \<open>
  The loop \<^verbatim>\<open>while ((m = re.exec(str)) !== null)\<close> over a pattern with the \<open>g\<close> flag:
  each search starts where the last match ended. A match of length zero would leave
  \<open>lastIndex\<close> where it is and the loop would not end; the one pattern this loop runs
  on starts with the letters of \<open>import\<close>, so its matches are never empty and the
  last branch is never taken (lemma \<open>importRegex_consumes\<close>).
\<close>

fun exec_loop :: "re \<Rightarrow> jsstring \<Rightarrow> (jsstring \<times> captures) list" where
  "exec_loop r s =
     (case exec r s of
        None \<Rightarrow> []
      | Some (pre, m, c, rest) \<Rightarrow>
          if length rest < length s then (m, c) # exec_loop r rest else [])"

declare exec_loop.simps [simp del]

text \<open>The character classes of the patterns.\<close>

definition cls_space :: "jschar \<Rightarrow> bool" where
  "cls_space c = isWhiteSpace c"

definition cls_word :: "jschar \<Rightarrow> bool" where
  "cls_word c = ((0x61 \<le> c \<and> c \<le> 0x7A) \<or> (0x41 \<le> c \<and> c \<le> 0x5A)
                  \<or> (0x30 \<le> c \<and> c \<le> 0x39) \<or> c = 0x5F)"

definition cls_dot :: "jschar \<Rightarrow> bool" where
  "cls_dot c = (c \<notin> {0x0A, 0x0D, 0x2028, 0x2029})"

definition cls_any :: "jschar \<Rightarrow> bool" where
  "cls_any c = True"

definition cls_not :: "jsstring \<Rightarrow> jschar \<Rightarrow> bool" where
  "cls_not cs c = (c \<notin> set cs)"

definition cls_of :: "jsstring \<Rightarrow> jschar \<Rightarrow> bool" where
  "cls_of cs c = (c \<in> set cs)"

section \<open>The plugin\<close>

text \<open>
  The state the plugin's hooks share: the style text of every component compiled so far
  and the production flag. \<open>allCssContent\<close> is a JavaScript \<open>Map\<close>, which iterates in
  insertion order: \<open>map_set\<close> overwrites the value of a key that is present, where it
  stands, and appends a new key at the end.
\<close>

record plugin_state =
  allCssContent :: "(jsstring \<times> jsstring) list"
  isProd :: bool

fun map_set :: "jsstring \<Rightarrow> jsstring \<Rightarrow> (jsstring \<times> jsstring) list \<Rightarrow> (jsstring \<times> jsstring) list" where
  "map_set k v [] = [(k, v)]"
| "map_set k v ((k', v') # m) = (if k' = k then (k, v) # m else (k', v') # map_set k v m)"

record config =
  isProduction :: bool
  mode :: jsstring

definition configResolved :: "plugin_state \<Rightarrow> config \<Rightarrow> plugin_state" where
  "configResolved st cfg = st\<lparr>isProd := (isProduction cfg \<or> mode cfg = js ''production'')\<rparr>"

definition buildStart :: "plugin_state \<Rightarrow> plugin_state" where
  "buildStart st = st\<lparr>allCssContent := []\<rparr>"

text \<open>\<open>generateBundle\<close>: the file handed to \<open>this.emitFile\<close>, if any.\<close>

record emitted_file =
  file_type :: jsstring
  fileName :: jsstring
  source :: jsstring

definition bundle_entry :: "jsstring \<Rightarrow> jsstring \<times> jsstring \<Rightarrow> jsstring" where
  \<open>bundle_entry combinedCss entry =
     (case entry of (componentName, css) \<Rightarrow>
        combinedCss @ js ''/* ''
                       @ componentName
                       @ js '' Component Styles */\<newline>''
                       @ js ''\<newline>''
                       @ css
                       @ js ''\<newline>''
                       @ js ''\<newline>''
                       @ js ''\<newline>''
                       @ js ''\<newline>'')\<close>

definition generateBundle :: "plugin_state \<Rightarrow> emitted_file option" where
  "generateBundle st =
     (if length (allCssContent st) > 0
      then Some \<lparr>file_type = js ''asset'',
                 fileName = js ''assets/style.css'',
                 source = foldl bundle_entry [] (allCssContent st)\<rparr>
      else None)"

text \<open>
  Two library functions the plugin calls are taken from the host: Node's
  \<open>path.basename(path, ext)\<close>, which depends on the platform, and
  \<open>String.prototype.toUpperCase\<close>, which follows the Unicode case tables.
  \<open>toLowerCase\<close> is only applied to names that the pattern \<open>\w+\<close> captured, which are
  made of ASCII letters, digits and underscores; on those it is the map below.
\<close>

record host =
  path_basename :: "jsstring \<Rightarrow> jsstring \<Rightarrow> jsstring"
  toUpperCase :: "jsstring \<Rightarrow> jsstring"

definition toLowerCase :: "jsstring \<Rightarrow> jsstring" where
  "toLowerCase s = map (\<lambda>c. if 0x41 \<le> c \<and> c \<le> 0x5A then c + 0x20 else c) s"

subsection \<open>The patterns of \<open>transform\<close>\<close>

definition spaces1 :: re where
  "spaces1 = Plus True (Cls cls_space)"

definition spaces0 :: re where
  "spaces0 = Star True (Cls cls_space)"

definition quote_chars :: jsstring where
  \<open>quote_chars = js ''\'"''\<close>

text \<open>\<^verbatim>\<open>/<script>([\s\S]*?)<\/script>/\<close>\<close>

definition scriptMatch :: re where
  "scriptMatch =
     seqs [Lit (js ''<script>''), Grp 1 (Star False (Cls cls_any)), Lit (js ''</script>'')]"

text \<open>\<^verbatim>\<open>/<style(\s+scoped)?>([\s\S]*?)<\/style>/\<close>\<close>

definition styleMatch :: re where
  "styleMatch =
     seqs [Lit (js ''<style''), Opt (Grp 1 (Seq spaces1 (Lit (js ''scoped'')))), Lit (js ''>''),
           Grp 2 (Star False (Cls cls_any)), Lit (js ''</style>'')]"

text \<open>\<^verbatim>\<open>/import\s+(\w+)\s+from\s+['"](.+?)\.olova['"]/g\<close>\<close>

definition importRegex :: re where
  "importRegex =
     seqs [Lit (js ''import''), spaces1, Grp 1 (Plus True (Cls cls_word)), spaces1,
           Lit (js ''from''), spaces1, Cls (cls_of quote_chars),
           Grp 2 (Plus False (Cls cls_dot)), Lit (js ''.olova''), Cls (cls_of quote_chars)]"

text \<open>
  The pattern built for an import named \<open>N\<close>, with the \<open>g\<close> flag:
  \<^verbatim>\<open><N(\s+[^>]*)?>(.*?)<\/N>|<N(\s+[^>]*)?\/>\<close>.
  \<open>N\<close> was captured by \<open>\w+\<close>, so it holds no character that is special in a pattern.
\<close>

definition tag_attrs :: "nat \<Rightarrow> re" where
  "tag_attrs k = Opt (Grp k (Seq spaces1 (Star True (Cls (cls_not (js ''>''))))))"

definition componentTagRegex :: "jsstring \<Rightarrow> re" where
  "componentTagRegex n =
     Alt (seqs [Lit (js ''<'' @ n), tag_attrs 1, Lit (js ''>''),
                Grp 2 (Star False (Cls cls_dot)), Lit (js ''</'' @ n @ js ''>'')])
         (seqs [Lit (js ''<'' @ n), tag_attrs 3, Lit (js ''/>'')])"

text \<open>
  The patterns that clean the script, all with the \<open>g\<close> flag:
  \<^verbatim>\<open>/import\s+{?\s*setProps\s*}?\s*from\s+['"][^'"]+['"]\s*;?\s*/\<close>,
  \<^verbatim>\<open>/(?:let|const|var)\s+props\s*=\s*setProps\([^)]*\);?/\<close>,
  \<^verbatim>\<open>/setProps\([^)]*\);?/\<close>,
  \<^verbatim>\<open>/\w+\s*=\s*setProps\([^)]*\);?/\<close> and
  \<^verbatim>\<open>/function\s+setProps\s*\([^)]*\)\s*{[^}]*}/\<close>.
\<close>

definition setPropsCall :: re where
  "setPropsCall =
     seqs [Lit (js ''setProps(''), Star True (Cls (cls_not (js '')''))), Lit (js '')''),
           Opt (Lit (js '';''))]"

definition setPropsImport :: re where
  "setPropsImport =
     seqs [Lit (js ''import''), spaces1, Opt (Lit (js ''{'')), spaces0, Lit (js ''setProps''),
           spaces0, Opt (Lit (js ''}'')), spaces0, Lit (js ''from''), spaces1,
           Cls (cls_of quote_chars), Plus True (Cls (cls_not quote_chars)),
           Cls (cls_of quote_chars), spaces0, Opt (Lit (js '';'')), spaces0]"

definition setPropsDeclaration :: re where
  "setPropsDeclaration =
     seqs [Alt (Lit (js ''let'')) (Alt (Lit (js ''const'')) (Lit (js ''var''))), spaces1,
           Lit (js ''props''), spaces0, Lit (js ''=''), spaces0, setPropsCall]"

definition setPropsAssignment :: re where
  "setPropsAssignment =
     seqs [Plus True (Cls cls_word), spaces0, Lit (js ''=''), spaces0, setPropsCall]"

definition setPropsFunction :: re where
  "setPropsFunction =
     seqs [Lit (js ''function''), spaces1, Lit (js ''setProps''), spaces0, Lit (js ''(''),
           Star True (Cls (cls_not (js '')''))), Lit (js '')''), spaces0, Lit (js ''{''),
           Star True (Cls (cls_not (js ''}''))), Lit (js ''}'')]"

subsection \<open>The steps of \<open>transform\<close>\<close>

text \<open>An absent group reads as \<open>undefined\<close>; \<open>x || ""\<close> turns it into the empty string.\<close>

definition group_of :: "captures option \<Rightarrow> nat \<Rightarrow> jsstring option" where
  "group_of m k = (case m of None \<Rightarrow> None | Some c \<Rightarrow> c k)"

definition or_empty :: "jsstring option \<Rightarrow> jsstring" where
  "or_empty v = (case v of None \<Rightarrow> [] | Some s \<Rightarrow> s)"

record import_record =
  name :: jsstring
  path :: jsstring

text \<open>
  The import loop. Groups 1 and 2 take part in every match of \<open>importRegex\<close>.
\<close>

definition import_of :: "jsstring \<times> captures \<Rightarrow> import_record" where
  "import_of mc = (case mc of (m, c) \<Rightarrow>
     \<lparr>name = or_empty (c 1), path = or_empty (c 2) @ js ''.olova''\<rparr>)"

definition resolveImports :: "jsstring \<Rightarrow> import_record list" where
  "resolveImports scriptContent = map import_of (exec_loop importRegex scriptContent)"

text \<open>The callback of the template rewrite, and the \<open>forEach\<close> over the imports.\<close>

definition componentPlaceholder :: "import_record \<Rightarrow> jsstring \<Rightarrow> captures \<Rightarrow> jsstring" where
  \<open>componentPlaceholder imp m c =
     (let attrs1 = or_empty (c 1); content = or_empty (c 2); attrs2 = or_empty (c 3);
          attrs = (if attrs1 \<noteq> [] then attrs1 else if attrs2 \<noteq> [] then attrs2 else [])
      in js ''<div data-component="'' @ name imp @ js ''" '' @ attrs @ js ''>'' @ content
         @ js ''</div>'')\<close>

definition rewriteTemplate :: "import_record list \<Rightarrow> jsstring \<Rightarrow> jsstring" where
  "rewriteTemplate import_records htmlContent =
     foldl (\<lambda>html imp. replace_all (componentTagRegex (name imp)) (componentPlaceholder imp) html)
       htmlContent import_records"

definition cssCodeText :: "jsstring \<Rightarrow> jsstring \<Rightarrow> jsstring" where
  \<open>cssCodeText componentName processedStyle =
     js ''\<newline>''
     @ js ''          // Add styles to document head (only once per component type)\<newline>''
     @ js ''          if (!document.querySelector('style[data-olova-component="''
     @ componentName
     @ js ''"]')) {\<newline>''
     @ js ''            const styleEl = document.createElement('style');\<newline>''
     @ js ''            styleEl.setAttribute('data-olova-component', '' @ squote
     @ componentName
     @ js ''');\<newline>''
     @ js ''            styleEl.textContent = `''
     @ processedStyle
     @ js ''`;\<newline>''
     @ js ''            document.head.appendChild(styleEl);\<newline>''
     @ js ''          }\<newline>''
     @ js ''        ''\<close>

definition cleanScript :: "jsstring \<Rightarrow> jsstring" where
  "cleanScript scriptContent =
     (let empty = (\<lambda>m c. []);
          s1 = replace_all importRegex empty scriptContent;
          s2 = replace_all setPropsImport empty s1;
          s3 = replace_all setPropsDeclaration empty s2;
          s4 = replace_all setPropsCall empty s3;
          s5 = replace_all setPropsAssignment empty s4
      in replace_all setPropsFunction empty s5)"

text \<open>\<^verbatim>\<open>htmlContent.replace(/`/g, "\\`")\<close>\<close>

definition escapeBackticks :: "jsstring \<Rightarrow> jsstring" where
  \<open>escapeBackticks htmlContent =
     replace_all (Lit (js ''`'')) (\<lambda>m c. backslash @ js ''`'') htmlContent\<close>

definition importStatement :: "import_record \<Rightarrow> jsstring" where
  \<open>importStatement imp =
     js ''import ''
     @ name imp
     @ js '' from './''
     @ path imp
     @ js ''';''\<close>

definition importStatements :: "import_record list \<Rightarrow> jsstring" where
  "importStatements import_records = join (map importStatement import_records) (js ''\<newline>'')"

definition mountStatement :: "import_record \<Rightarrow> jsstring" where
  \<open>mountStatement imp =
     js ''\<newline>''
     @ js ''              const ''
     @ toLowerCase (name imp)
     @ js ''Elements = container.querySelectorAll('[data-component="''
     @ name imp
     @ js ''"]');\<newline>''
     @ js ''              ''
     @ toLowerCase (name imp)
     @ js ''Elements.forEach(el => {\<newline>''
     @ js ''                ''
     @ name imp
     @ js ''(el);\<newline>''
     @ js ''              });\<newline>''
     @ js ''            ''\<close>

definition mountStatements :: "import_record list \<Rightarrow> jsstring" where
  "mountStatements import_records = join (map mountStatement import_records) (js ''\<newline>'')"

text \<open>
  The text of the emitted module, in three parts: what stands before the factory
  function, the body of the function the factory returns, and the whole module.
\<close>

definition modulePrelude :: "import_record list \<Rightarrow> jsstring" where
  \<open>modulePrelude import_records =
     js ''\<newline>''
     @ js ''        // Import directly from main.js instead of olova.js\<newline>''
     @ js ''        \<newline>''
     @ js ''        ''
     @ importStatements import_records
     @ js ''\<newline>''
     @ js ''        \<newline>''
     @ js ''        // Create the component definition\<newline>''
     @ js ''        ''\<close>

definition mountBody ::
  "import_record list \<Rightarrow> jsstring \<Rightarrow> bool \<Rightarrow> jsstring \<Rightarrow> jsstring \<Rightarrow> jsstring \<Rightarrow> jsstring" where
  \<open>mountBody import_records componentName isScoped scopeId escapedHtmlContent
       modifiedScriptContent =
     js ''            // Create a new container for each component instance\<newline>''
     @ js ''            const container = document.createElement('div');\<newline>''
     @ js ''            container.setAttribute('data-olova-component', '' @ squote
     @ componentName
     @ js ''');\<newline>''
     @ js ''            ''
     @ (if isScoped then js ''container.setAttribute('' @ squote @ scopeId @ js ''', '' @ squote @ js ''');'' else [])
     @ js ''\<newline>''
     @ js ''            \<newline>''
     @ js ''            // Create local references to elements within this component instance\<newline>''
     @ js ''            const querySelector = selector => container.querySelector(selector);\<newline>''
     @ js ''            const querySelectorAll = selector => container.querySelectorAll(selector);\<newline>''
     @ js ''            const getElementById = id => {\<newline>''
     @ js ''              const el = container.querySelector('#' + id);\<newline>''
     @ js ''              return el || document.getElementById(id);\<newline>''
     @ js ''            };\<newline>''
     @ js ''            \<newline>''
     @ js ''            // First add the HTML content to the container\<newline>''
     @ js ''            container.innerHTML = `''
     @ escapedHtmlContent
     @ js ''`;\<newline>''
     @ js ''            \<newline>''
     @ js ''            // Then run the component script\<newline>''
     @ js ''            ''
     @ modifiedScriptContent
     @ js ''\<newline>''
     @ js ''            \<newline>''
     @ js ''            // If scoped, ensure all top-level elements have the scope ID\<newline>''
     @ js ''            ''
     @ (if isScoped
        then js ''\<newline>''
        @ js ''            Array.from(container.children).forEach(child => {\<newline>''
        @ js ''              if (!child.hasAttribute('' @ squote
        @ scopeId
        @ js ''')) {\<newline>''
        @ js ''                child.setAttribute('' @ squote
        @ scopeId
        @ js ''', '' @ squote @ js ''');\<newline>''
        @ js ''              }\<newline>''
        @ js ''            });\<newline>''
        @ js ''            ''
        else [])
     @ js ''\<newline>''
     @ js ''            \<newline>''
     @ js ''            // Append the component's HTML to the target\<newline>''
     @ js ''            targetElement.appendChild(container);\<newline>''
     @ js ''            \<newline>''
     @ js ''            // Mount child components\<newline>''
     @ js ''            ''
     @ mountStatements import_records
     @ js ''\<newline>''
     @ js ''            \<newline>''
     @ js ''            // Return a cleanup function\<newline>''
     @ js ''            return function() {\<newline>''
     @ js ''              if (targetElement.contains(container)) {\<newline>''
     @ js ''                targetElement.removeChild(container);\<newline>''
     @ js ''              }\<newline>''
     @ js ''            };\<newline>''\<close>

definition resultCodeText ::
  "import_record list \<Rightarrow> jsstring \<Rightarrow> jsstring \<Rightarrow> bool \<Rightarrow> jsstring \<Rightarrow> jsstring \<Rightarrow> jsstring
     \<Rightarrow> jsstring" where
  \<open>resultCodeText import_records componentName cssCode isScoped scopeId escapedHtmlContent
       modifiedScriptContent =
     modulePrelude import_records
     @ js ''function ''
     @ componentName
     @ js ''Component() {\<newline>''
     @ js ''          ''
     @ cssCode
     @ js ''\<newline>''
     @ js ''          \<newline>''
     @ js ''          // Return a function that will mount the component and run its script\<newline>''
     @ js ''          return function(targetElement) {\<newline>''
     @ mountBody import_records componentName isScoped scopeId escapedHtmlContent
         modifiedScriptContent
     @ js ''          };\<newline>''
     @ js ''        }\<newline>''
     @ js ''        \<newline>''
     @ js ''        // Export the component directly without using registerComponent\<newline>''
     @ js ''        export default ''
     @ componentName
     @ js ''Component();\<newline>''
     @ js ''      ''\<close>

text \<open>The local variables of \<open>transform\<close>, in the order the source computes them.\<close>

record locals =
  componentName :: jsstring
  scopeId :: jsstring
  scriptContent :: jsstring
  isScoped :: bool
  styleContent :: jsstring
  import_records :: "import_record list"
  htmlContent :: jsstring
  processedStyle :: jsstring
  cssCode :: jsstring
  modifiedScriptContent :: jsstring
  escapedHtmlContent :: jsstring

definition transform_locals :: "host \<Rightarrow> plugin_state \<Rightarrow> jsstring \<Rightarrow> jsstring \<Rightarrow> locals" where
  "transform_locals h st code ident =
     (let fileName = path_basename h ident (js ''.olova'');
          componentName = toUpperCase h (take 1 fileName) @ drop 1 fileName;
          hash = substring (simpleHash ident) 0 8;
          scopeId = js ''data-v-'' @ hash;
          scriptContent = or_empty (group_of (match_js code scriptMatch) 1);
          styleTagMatch = match_js code styleMatch;
          isScoped = (group_of styleTagMatch 1 \<noteq> None);
          styleContent = or_empty (group_of styleTagMatch 2);
          htmlContent0 = trim (replace_first styleMatch (\<lambda>m c. [])
                                  (replace_first scriptMatch (\<lambda>m c. []) code));
          import_records = resolveImports scriptContent;
          htmlContent = rewriteTemplate import_records htmlContent0;
          processedStyle = (if isScoped then transformScopedCss styleContent scopeId
                            else styleContent);
          cssCode = (if styleContent \<noteq> [] \<and> \<not> isProd st
                     then cssCodeText componentName processedStyle else []);
          modifiedScriptContent = cleanScript scriptContent;
          escapedHtmlContent = escapeBackticks htmlContent
      in \<lparr>componentName = componentName, scopeId = scopeId, scriptContent = scriptContent,
          isScoped = isScoped, styleContent = styleContent, import_records = import_records,
          htmlContent = htmlContent, processedStyle = processedStyle, cssCode = cssCode,
          modifiedScriptContent = modifiedScriptContent,
          escapedHtmlContent = escapedHtmlContent\<rparr>)"

record transform_result =
  result_code :: jsstring
  result_map :: "jsstring option"

text \<open>
  \<open>transform(code, id)\<close>: the new state of the plugin and the value returned, \<open>None\<close>
  for the \<open>null\<close> that a file of another kind gets.
\<close>

definition transform ::
  "host \<Rightarrow> plugin_state \<Rightarrow> jsstring \<Rightarrow> jsstring \<Rightarrow> plugin_state \<times> transform_result option" where
  "transform h st code ident =
     (if \<not> endsWith ident (js ''.olova'') then (st, None)
      else (let l = transform_locals h st code ident;
                st' = (if styleContent l \<noteq> []
                       then st\<lparr>allCssContent :=
                              map_set (componentName l) (processedStyle l) (allCssContent st)\<rparr>
                       else st);
                resultCode = resultCodeText (import_records l) (componentName l) (cssCode l)
                               (isScoped l) (scopeId l) (escapedHtmlContent l)
                               (modifiedScriptContent l)
            in (st', Some \<lparr>result_code = resultCode, result_map = None\<rparr>)))"

text \<open>\<open>transformIndexHtml(html)\<close>\<close>

definition transformIndexHtml :: "plugin_state \<Rightarrow> jsstring \<Rightarrow> jsstring" where
  \<open>transformIndexHtml st html =
     (if length (allCssContent st) > 0 \<and> isProd st
      then replace_js html (js ''</head>'')
             (js ''  <link rel="stylesheet" href="/assets/style.css">\<newline></head>'')
      else html)\<close>

section \<open>The runtime: \<open>mount\<close>\<close>

text \<open>
  The document belongs to the host. Its operations are parameters of the model, over a
  type \<open>'w\<close> of document states and a type \<open>'n\<close> of nodes: \<open>document.querySelector\<close>
  throws on a selector it cannot parse and returns \<open>null\<close> or a node otherwise; the
  setter of \<open>innerHTML\<close> and \<open>console.error\<close> change the state. \<open>emptyObject\<close> is the
  \<open>{}\<close> that \<open>props\<close> defaults to.
\<close>

record ('w, 'n, 'e, 'p) document =
  querySelector :: "'w \<Rightarrow> jsstring \<Rightarrow> 'e + 'n option"
  set_innerHTML :: "'n \<Rightarrow> jsstring \<Rightarrow> 'w \<Rightarrow> 'w"
  console_error :: "jsstring \<Rightarrow> 'w \<Rightarrow> 'w"
  emptyObject :: 'p

text \<open>
  What \<open>mount\<close> returns: the value the component returned, or the arrow function
  \<^verbatim>\<open>() => {}\<close> that does nothing.
\<close>

datatype 'u unmount = FromComponent 'u | NoOp

text \<open>
  A component takes the target node and the props, runs against the document and
  returns a value, or throws.
\<close>

type_synonym ('w, 'n, 'e, 'p, 'u) component = "'n \<Rightarrow> 'p \<Rightarrow> 'w \<Rightarrow> 'e + ('u \<times> 'w)"

definition notFoundMessage :: "jsstring \<Rightarrow> jsstring" where
  \<open>notFoundMessage selector = js ''Target element "'' @ selector @ js ''" not found''\<close>

definition mount ::
  "('w, 'n, 'e, 'p) document \<Rightarrow> ('w, 'n, 'e, 'p, 'u) component \<Rightarrow> jsstring \<Rightarrow> 'p option \<Rightarrow> 'w
     \<Rightarrow> 'e + ('u unmount \<times> 'w)" where
  "mount doc componentMount selector props_arg w =
     (let props = (case props_arg of None \<Rightarrow> emptyObject doc | Some p \<Rightarrow> p) in
      case querySelector doc w selector of
        Inl e \<Rightarrow> Inl e
      | Inr (Some targetElement) \<Rightarrow>
          (let w1 = set_innerHTML doc targetElement [] w in
           case componentMount targetElement props w1 of
             Inl e \<Rightarrow> Inl e
           | Inr (u, w2) \<Rightarrow> Inr (FromComponent u, w2))
      | Inr None \<Rightarrow> Inr (NoOp, console_error doc (notFoundMessage selector) w))"

section \<open>The scope token as the specification words it\<close>

text \<open>
  The specification gives the accumulation as \<open>hash = hash*31 - hash + charCode\<close>.
  These two definitions follow its words, to be compared with \<open>hash_step\<close> and
  \<open>ScopeToken\<close>, which follow the source.
\<close>

definition spec_hash_step :: "int \<Rightarrow> jschar \<Rightarrow> int" where
  "spec_hash_step hash c = toInt32 (hash * 31 - hash + uint c)"

definition spec_ScopeToken :: "jsstring \<Rightarrow> jsstring" where
  "spec_ScopeToken ident = take 8 (toString16 (nat \<bar>foldl spec_hash_step 0 ident\<bar>))"

section \<open>A host and a document for the examples\<close>

text \<open>
  The examples below run the plugin on a host whose \<open>basename\<close> is the POSIX one for a
  path that does not end in a slash, and whose \<open>toUpperCase\<close> changes the ASCII
  letters only; and they run \<open>mount\<close> on a document with a single node, found by the
  selector \<open>#app\<close>, that rejects the empty selector. A state of that document is the
  content of its nodes and the lines written to the console.
\<close>

definition example_basename :: "jsstring \<Rightarrow> jsstring \<Rightarrow> jsstring" where
  "example_basename p ext =
     (let base = last (split_js p (js ''/'')) in
      if p = ext then []
      else if endsWith base ext \<and> length ext < length base
      then take (length base - length ext) base
      else base)"

definition example_toUpperCase :: "jsstring \<Rightarrow> jsstring" where
  "example_toUpperCase s = map (\<lambda>c. if 0x61 \<le> c \<and> c \<le> 0x7A then c - 0x20 else c) s"

definition example_host :: host where
  "example_host = \<lparr>path_basename = example_basename, toUpperCase = example_toUpperCase\<rparr>"

type_synonym example_world = "(nat \<Rightarrow> jsstring) \<times> jsstring list"

definition example_document :: "(example_world, nat, unit, unit) document" where
  "example_document =
     \<lparr>querySelector = (\<lambda>w selector. if selector = [] then Inl ()
                                      else if selector = js ''#app'' then Inr (Some 0)
                                      else Inr None),
      set_innerHTML = (\<lambda>n html w. ((fst w)(n := html), snd w)),
      console_error = (\<lambda>msg w. (fst w, snd w @ [msg])),
      emptyObject = ()\<rparr>"

text \<open>A component that writes one element into its target and returns the target.\<close>

definition example_component :: "(example_world, nat, unit, unit, nat) component" where
  "example_component n p w = Inr (n, ((fst w)(n := js ''<div></div>''), snd w))"

section \<open>Properties of the CSS scoper\<close>

lemmas string_defs =
  js_def split_js_def trim_def isWhiteSpace_def includes_js_def substring_def
  substring_from_def clamp_index_def replace_js_def

lemmas scoper_defs =
  transformScopedCss_def css_line_def css_init_def transformSelector_def selectorsOf_def
  ruleStart_def

lemma getSubstitution_plain: "0x24 \<notin> set r \<Longrightarrow> getSubstitution m pre post r = r"
  by (induction m pre post r rule: getSubstitution.induct) auto

text \<open>
  C1, as the claim states it, fails: the scoper ends every line it emits with a line
  feed, so the output for the one-line rule is not exactly the scoped rule; and in a
  token with a dollar sign, \<open>replace\<close> reads \<open>$&\<close> as the matched text, so that
  \<open>:root\<close> comes back inside the brackets.
\<close>

theorem scoped_rule_exact_counterexample:
  "transformScopedCss (js ''.foo { color: red; }'') (js ''t1'') \<noteq> js ''[t1] .foo { color: red; }''
   \<and> transformScopedCss (js '':root { --x: 1; }'') (js ''a$&b'')
       \<noteq> js ''[a$&b] { --x: 1; }\<newline>''"
  by (simp add: scoper_defs string_defs)

text \<open>
  C1 (amended): for every scope token \<open>t1\<close> that holds no dollar sign, scoping the rule
  \<open>.foo { color: red; }\<close> yields \<open>[t1] .foo { color: red; }\<close> followed by a line feed,
  and scoping \<open>:root { --x: 1; }\<close> yields \<open>[t1] { --x: 1; }\<close> followed by a line feed:
  the pseudo-class is replaced by the bracketed token, not prefixed. The scope ids that
  \<open>transform\<close> makes hold no dollar sign (lemma \<open>scope_id_no_dollar\<close>).
\<close>

theorem scoped_rule_output:
  "0x24 \<notin> set t1 \<Longrightarrow>
     transformScopedCss (js ''.foo { color: red; }'') t1
       = js ''['' @ t1 @ js ''] .foo { color: red; }\<newline>''
     \<and> transformScopedCss (js '':root { --x: 1; }'') t1
       = js ''['' @ t1 @ js ''] { --x: 1; }\<newline>''"
  by (simp add: scoper_defs string_defs getSubstitution_plain)

theorem scoped_rule_output_witness:
  "(0x24 :: jschar) \<notin> set (js ''t1'')
     \<and> transformScopedCss (js ''.foo { color: red; }'') (js ''t1'')
       = js ''[t1] .foo { color: red; }\<newline>''
     \<and> transformScopedCss (js '':root { --x: 1; }'') (js ''t1'')
       = js ''[t1] { --x: 1; }\<newline>''"
  using scoped_rule_output [of "js ''t1''"] by (simp add: js_def)

section \<open>Properties of the scope token\<close>

lemma toInt32_cong: "x mod 2 ^ 32 = y mod 2 ^ 32 \<Longrightarrow> toInt32 x = toInt32 y"
proof -
  assume h: "x mod 2 ^ 32 = y mod 2 ^ 32"
  have "(x + 2 ^ 31) mod 2 ^ 32 = (x mod 2 ^ 32 + 2 ^ 31) mod 2 ^ 32"
    by (simp only: mod_add_left_eq)
  also have "\<dots> = (y mod 2 ^ 32 + 2 ^ 31) mod 2 ^ 32"
    by (simp only: h)
  also have "\<dots> = (y + 2 ^ 31) mod 2 ^ 32"
    by (simp only: mod_add_left_eq)
  finally show ?thesis by (simp only: toInt32_def)
qed

lemma toInt32_mod: "toInt32 x mod 2 ^ 32 = x mod 2 ^ 32"
proof -
  have "toInt32 x mod 2 ^ 32 = ((x + 2 ^ 31) mod 2 ^ 32 - 2 ^ 31) mod 2 ^ 32"
    by (simp add: toInt32_def)
  also have "\<dots> = (x + 2 ^ 31 - 2 ^ 31) mod 2 ^ 32"
    by (rule mod_diff_left_eq)
  finally show ?thesis by simp
qed

lemma toInt32_range: "- (2 ^ 31) \<le> toInt32 x \<and> toInt32 x < 2 ^ 31"
  unfolding toInt32_def
  using pos_mod_sign [of "2 ^ 32" "x + 2 ^ 31"] pos_mod_bound [of "2 ^ 32" "x + 2 ^ 31"]
  by simp

text \<open>The shift, the subtraction and the mask of the loop amount to \<open>hash * 31 + char\<close>.\<close>

lemma hash_step_eq: "hash_step h c = toInt32 (h * 31 + uint c)"
proof -
  have "(toInt32 (toInt32 h * 32) - h + uint c) mod 2 ^ 32
        = (toInt32 (toInt32 h * 32) - (h - uint c)) mod 2 ^ 32"
    by (simp add: algebra_simps)
  also have "\<dots> = (toInt32 (toInt32 h * 32) mod 2 ^ 32 - (h - uint c)) mod 2 ^ 32"
    by (rule mod_diff_left_eq [symmetric])
  also have "\<dots> = ((toInt32 h * 32) mod 2 ^ 32 - (h - uint c)) mod 2 ^ 32"
    by (simp only: toInt32_mod)
  also have "\<dots> = ((toInt32 h mod 2 ^ 32 * 32) mod 2 ^ 32 - (h - uint c)) mod 2 ^ 32"
    by (simp only: mod_mult_left_eq)
  also have "\<dots> = ((h mod 2 ^ 32 * 32) mod 2 ^ 32 - (h - uint c)) mod 2 ^ 32"
    by (simp only: toInt32_mod)
  also have "\<dots> = (h * 32 - (h - uint c)) mod 2 ^ 32"
    by (simp only: mod_mult_left_eq mod_diff_left_eq)
  also have "\<dots> = (h * 31 + uint c) mod 2 ^ 32"
    by (simp add: algebra_simps)
  finally have "toInt32 (toInt32 (toInt32 h * 32) - h + uint c) = toInt32 (h * 31 + uint c)"
    by (rule toInt32_cong)
  then show ?thesis
    by (simp add: hash_step_def and_self_def shiftLeft_def)
qed

lemma substring_0: "substring s 0 (int n) = take n s"
  by (simp add: substring_def clamp_index_def Let_def min_def)

lemma foldl_hash_range:
  "- (2 ^ 31) \<le> foldl hash_step 0 str \<and> foldl hash_step 0 str < 2 ^ 31"
proof (induction str rule: rev_induct)
  case Nil
  then show ?case by simp
next
  case (snoc c str)
  have "foldl hash_step 0 (str @ [c]) = toInt32 (foldl hash_step 0 str * 31 + uint c)"
    by (simp only: foldl_append foldl.simps hash_step_eq)
  then show ?case using toInt32_range [of "foldl hash_step 0 str * 31 + uint c"]
    by simp
qed

text \<open>The digits of a token are \<open>0\<close> to \<open>9\<close> and \<open>a\<close> to \<open>f\<close>.\<close>

lemma unat_hexDigit:
  assumes "d < 16"
  shows "unat (hexDigit d) = (if d < 10 then 48 + d else 87 + d)"
proof -
  have a: "unat (of_nat (48 + d) :: jschar) = (48 + d) mod 2 ^ LENGTH(16)"
    by (rule unat_of_nat)
  have b: "unat (of_nat (87 + d) :: jschar) = (87 + d) mod 2 ^ LENGTH(16)"
    by (rule unat_of_nat)
  show ?thesis using assms unfolding hexDigit_def
    by (simp only: a b split: if_splits) simp
qed

lemma hexDigit_not_dollar: "d < 16 \<Longrightarrow> hexDigit d \<noteq> 0x24"
proof
  assume d: "d < 16" and eq: "hexDigit d = 0x24"
  from eq have "unat (hexDigit d) = 36" by simp
  then show False using unat_hexDigit [OF d] by (simp split: if_splits)
qed

lemma toString16_no_dollar: "0x24 \<notin> set (toString16 n)"
proof (induction n rule: toString16.induct)
  case (1 n)
  show ?case
  proof (cases "n < 16")
    case True
    then show ?thesis using hexDigit_not_dollar [of n] by (simp add: toString16.simps)
  next
    case False
    have "n mod 16 < 16" by simp
    then have "hexDigit (n mod 16) \<noteq> 0x24" by (rule hexDigit_not_dollar)
    then show ?thesis using False "1.IH" by (simp add: toString16.simps [of n]) 
  qed
qed

lemma scope_id_no_dollar:
  "0x24 \<notin> set (scopeId (transform_locals h st code ident))"
proof -
  have "set (take 8 (simpleHash ident)) \<subseteq> set (simpleHash ident)" by (rule set_take_subset)
  then have "0x24 \<notin> set (take 8 (simpleHash ident))"
    using toString16_no_dollar by (auto simp: simpleHash_def)
  then show ?thesis
    by (simp add: transform_locals_def Let_def substring_0 [of _ 8, simplified] js_def)
qed

lemma hash_ab: "foldl hash_step 0 (js ''ab'') = 3105"
  by (simp add: hash_step_eq toInt32_def js_def)

lemma spec_hash_ab: "foldl spec_hash_step 0 (js ''ab'') = 3008"
  by (simp add: spec_hash_step_def toInt32_def js_def)

lemma hex_3105: "toString16 3105 = js ''c21''"
  by (simp add: toString16.simps hexDigit_def js_def)

lemma hex_3008: "toString16 3008 = js ''bc0''"
  by (simp add: toString16.simps hexDigit_def js_def)

text \<open>
  C2, as the claim states it, fails: with \<open>hash*31 - hash + charCode\<close> the token of
  the identity \<open>ab\<close> would be \<open>bc0\<close>; the source computes \<open>c21\<close>. The shift by five
  bits multiplies by 32, not by 31.
\<close>

theorem scope_token_formula_counterexample:
  "ScopeToken (js ''ab'') \<noteq> spec_ScopeToken (js ''ab'')"
  by (simp add: ScopeToken_def spec_ScopeToken_def simpleHash_def hash_ab spec_hash_ab
        hex_3105 hex_3008 substring_0 [of _ 8, simplified])
     (simp add: js_def)

text \<open>
  C2 (amended): the scope token of a file is computed by iterating the code units of
  the full identity string, accumulating \<open>hash = hash*32 - hash + charCode\<close>, that is
  \<open>hash*31 + charCode\<close>, into a 32-bit signed integer, taking the absolute value (at
  most \<open>2^31\<close>), rendering it as a base-16 string and keeping its first 8 characters.
\<close>

theorem scope_token_formula:
  "ScopeToken ident
     = take 8 (toString16 (nat \<bar>foldl (\<lambda>hash c. toInt32 (hash * 31 + uint c)) 0 ident\<bar>))
   \<and> \<bar>foldl (\<lambda>hash c. toInt32 (hash * 31 + uint c)) 0 ident\<bar> \<le> 2 ^ 31"
proof -
  have eq: "hash_step = (\<lambda>hash c. toInt32 (hash * 31 + uint c))"
    by (intro ext) (rule hash_step_eq)
  have "ScopeToken ident = take 8 (toString16 (nat \<bar>foldl hash_step 0 ident\<bar>))"
    using substring_0 [of "simpleHash ident" 8] by (simp add: ScopeToken_def simpleHash_def)
  moreover have "\<bar>foldl hash_step 0 ident\<bar> \<le> 2 ^ 31"
    using foldl_hash_range [of ident] by (simp add: abs_le_iff)
  ultimately show ?thesis by (simp only: eq)
qed

text \<open>
  C3: the scope token is a function of the file identity alone. Two runs of
  \<open>transform\<close> on the same identity compute the same scope id, whatever the plugin
  state, the source text and the host are in each run, and that id is \<open>data-v-\<close>
  followed by \<open>ScopeToken\<close> of the identity.
\<close>

theorem scope_token_deterministic:
  "scopeId (transform_locals h1 st1 code1 ident) = scopeId (transform_locals h2 st2 code2 ident)
   \<and> scopeId (transform_locals h1 st1 code1 ident) = js ''data-v-'' @ ScopeToken ident"
  by (simp add: transform_locals_def Let_def ScopeToken_def)

section \<open>A one-line rule after a one-line rule\<close>

lemma js_newline: "js ''\<newline>'' = [0x0A]"
  by (simp add: js_def)

lemma js_lbrace: "js ''{'' = [0x7B]"
  by (simp add: js_def)

lemma js_rbrace: "js ''}'' = [0x7D]"
  by (simp add: js_def)

lemma split_go_no_separator: "c \<notin> set s \<Longrightarrow> split_go [c] cur s = [rev cur @ s]"
  by (induction s arbitrary: cur) auto

lemma split_go_separator:
  "c \<notin> set a \<Longrightarrow> split_go [c] cur (a @ c # b) = (rev cur @ a) # split_go [c] [] b"
  by (induction a arbitrary: cur) auto

lemma split_two_lines:
  assumes "0x0A \<notin> set l1" and "0x0A \<notin> set l2"
  shows "split_js (l1 @ js ''\<newline>'' @ l2) (js ''\<newline>'') = [l1, l2]"
  using assms
  by (simp add: split_js_def js_newline split_go_separator split_go_no_separator)

lemma indexOf_lower: "- 1 \<le> indexOf s p"
  by (induction s) (auto simp: Let_def)

lemma indexOf_single: "(indexOf s [c] = - 1) = (c \<notin> set s)"
proof (induction s)
  case Nil
  then show ?case by simp
next
  case (Cons x xs)
  then show ?case using indexOf_lower [of xs "[c]"]
    by (auto simp: Let_def)
qed

lemma includes_single: "includes_js s [c] = (c \<in> set s)"
  by (simp add: includes_js_def indexOf_single)

lemma dropWhile_keeps: "x \<in> set xs \<Longrightarrow> \<not> P x \<Longrightarrow> x \<in> set (dropWhile P xs)"
  by (induction xs) auto

lemma trim_keeps: "c \<in> set s \<Longrightarrow> \<not> isWhiteSpace c \<Longrightarrow> c \<in> set (trim s)"
  by (simp add: trim_def dropWhile_keeps)

lemma lbrace_not_space: "\<not> isWhiteSpace 0x7B"
  by (simp add: isWhiteSpace_def)

lemma rbrace_not_space: "\<not> isWhiteSpace 0x7D"
  by (simp add: isWhiteSpace_def)

text \<open>
  A line with an opening brace, met outside a rule, opens a rule: the first branch of
  the loop looks at nothing else on the line.
\<close>

lemma css_line_opens:
  assumes "0x7B \<in> set line" and "\<not> inRule st"
  shows "css_line t st line
     = st\<lparr>inRule := True, currentSelectors := selectorsOf (trim line),
          processedCss := processedCss st @ ruleStart t (trim line)\<rparr>"
proof -
  have b: "0x7B \<in> set (trim line)" using assms(1) lbrace_not_space by (rule trim_keeps)
  then have "trim line \<noteq> []" by auto
  then show ?thesis using b assms(2)
    by (simp add: css_line_def Let_def js_lbrace includes_single)
qed

text \<open>A line with a closing brace, met inside a rule, is copied and closes the rule.\<close>

lemma css_line_closes:
  assumes "0x7D \<in> set line" and "inRule st"
  shows "css_line t st line
     = st\<lparr>inRule := False, currentSelectors := [],
          processedCss := processedCss st @ trim line @ js ''\<newline>''\<rparr>"
proof -
  have b: "0x7D \<in> set (trim line)" using assms(1) rbrace_not_space by (rule trim_keeps)
  then have "trim line \<noteq> []" by auto
  then show ?thesis using b assms(2)
    by (simp add: css_line_def Let_def js_rbrace includes_single)
qed

text \<open>
  C10: a first line \<open>l1\<close> that holds an opening brace puts the scoper inside a rule,
  whatever else the line holds, a closing brace included. A second line \<open>l2\<close> that
  holds a closing brace is then taken by the closing branch: the style text of the two
  lines comes out as the scoped start of the first rule followed by the second line,
  trimmed and otherwise as it was written, its selector unscoped; the scoper is outside
  a rule again afterwards. In particular this is so when both lines are one-line rules.
\<close>

theorem one_line_rule_left_unscoped:
  assumes "0x0A \<notin> set l1" and "0x0A \<notin> set l2"
    and "0x7B \<in> set l1" and "0x7D \<in> set l2"
  shows "inRule (css_line t css_init l1)
    \<and> \<not> inRule (css_line t (css_line t css_init l1) l2)
    \<and> transformScopedCss (l1 @ js ''\<newline>'' @ l2) t
        = ruleStart t (trim l1) @ trim l2 @ js ''\<newline>''"
proof -
  have s0: "\<not> inRule css_init" by (simp add: css_init_def)
  have s1: "css_line t css_init l1
     = css_init\<lparr>inRule := True, currentSelectors := selectorsOf (trim l1),
          processedCss := processedCss css_init @ ruleStart t (trim l1)\<rparr>"
    using assms(3) s0 by (rule css_line_opens)
  then have in1: "inRule (css_line t css_init l1)" by simp
  have s2: "css_line t (css_line t css_init l1) l2
     = (css_line t css_init l1)\<lparr>inRule := False, currentSelectors := [],
          processedCss := processedCss (css_line t css_init l1) @ trim l2 @ js ''\<newline>''\<rparr>"
    using assms(4) in1 by (rule css_line_closes)
  then have out2: "\<not> inRule (css_line t (css_line t css_init l1) l2)" by simp
  have "transformScopedCss (l1 @ js ''\<newline>'' @ l2) t
      = processedCss (css_line t (css_line t css_init l1) l2)"
    using split_two_lines [OF assms(1) assms(2)] by (simp add: transformScopedCss_def)
  also have "\<dots> = processedCss (css_line t css_init l1) @ trim l2 @ js ''\<newline>''"
    by (simp add: s2)
  also have "processedCss (css_line t css_init l1) = ruleStart t (trim l1)"
    by (simp add: s1) (simp add: css_init_def)
  finally show ?thesis using in1 out2 by simp
qed

theorem one_line_rule_left_unscoped_witness:
  "(0x0A :: jschar) \<notin> set (js ''.a { color: red; }'')
   \<and> (0x0A :: jschar) \<notin> set (js ''.b { color: blue; }'')
   \<and> (0x7B :: jschar) \<in> set (js ''.a { color: red; }'')
   \<and> (0x7D :: jschar) \<in> set (js ''.b { color: blue; }'')
   \<and> inRule (css_line (js ''t1'') css_init (js ''.a { color: red; }''))
   \<and> transformScopedCss (js ''.a { color: red; }\<newline>.b { color: blue; }'') (js ''t1'')
        = js ''[t1] .a { color: red; }\<newline>.b { color: blue; }\<newline>''"
  using one_line_rule_left_unscoped
          [of "js ''.a { color: red; }''" "js ''.b { color: blue; }''" "js ''t1''"]
  by (simp add: string_defs ruleStart_def selectorsOf_def transformSelector_def)

section \<open>Properties of the matcher\<close>

text \<open>A match never leaves more text than it was given.\<close>

lemma star_iter_shorter:
  assumes m: "\<And>c s c' s'. (c', s') \<in> set (m c s) \<Longrightarrow> length s' \<le> length s"
  shows "(c', s') \<in> set (star_iter greedy n m c s) \<Longrightarrow> length s' \<le> length s"
proof (induction n arbitrary: c s)
  case 0
  then show ?case by simp
next
  case (Suc n)
  then show ?case
    by (fastforce simp: Let_def split: if_splits dest: m)
qed

lemma ms_shorter: "(c', s') \<in> set (ms r c s) \<Longrightarrow> length s' \<le> length s"
proof (induction r arbitrary: c s c' s')
  case (Lit l)
  then show ?case by (auto split: if_splits)
next
  case (Cls p)
  then show ?case by (auto split: list.splits if_splits)
next
  case (Seq a b)
  then show ?case by fastforce
next
  case (Alt a b)
  then show ?case by auto
next
  case (Opt r)
  then show ?case by auto
next
  case (Star greedy r)
  then show ?case using star_iter_shorter [of "ms r"] by auto
next
  case (Grp k r)
  then show ?case by auto
qed

lemma startsWith_length: "startsWith s p \<Longrightarrow> length p \<le> length s"
  by (induction s p rule: startsWith.induct) auto

lemma ms_literal_first:
  assumes "(c', s') \<in> set (ms (Seq (Lit l) r) c s)"
  shows "length s' + length l \<le> length s"
proof -
  from assms have sw: "startsWith s l" and r: "(c', s') \<in> set (ms r c (drop (length l) s))"
    by (auto split: if_splits)
  have "length s' \<le> length (drop (length l) s)" using r by (rule ms_shorter)
  then show ?thesis using startsWith_length [OF sw] by simp
qed

lemma exec_from_rest:
  assumes "\<And>c s c' s'. (c', s') \<in> set (ms r c s) \<Longrightarrow> length s' < length s"
  shows "exec_from r skipped s = Some (pre, m, c, rest) \<Longrightarrow> length rest < length s"
proof (induction s arbitrary: skipped)
  case Nil
  then show ?case using assms [of _ _ Map.empty "[]"]
    by (auto simp: match_here_def split: list.splits option.splits)
next
  case (Cons x xs)
  show ?case
  proof (cases "match_here r (x # xs)")
    case None
    then show ?thesis using Cons by fastforce
  next
    case (Some a)
    then show ?thesis using Cons.prems assms [of _ _ Map.empty "x # xs"]
      by (auto simp: match_here_def split: list.splits option.splits)
  qed
qed

text \<open>
  Every match of the import pattern consumes text, so the import loop always moves on.
\<close>

lemma importRegex_consumes:
  assumes "exec importRegex s = Some (pre, m, c, rest)"
  shows "length rest < length s"
proof -
  have "\<And>c s c' s'. (c', s') \<in> set (ms importRegex c s) \<Longrightarrow> length s' < length s"
  proof -
    fix c s c' s'
    assume "(c', s') \<in> set (ms importRegex c s)"
    then have "length s' + length (js ''import'') \<le> length s"
      unfolding importRegex_def seqs.simps by (rule ms_literal_first)
    then show "length s' < length s" by (simp add: js_def)
  qed
  then show ?thesis using assms unfolding exec_def by (rule exec_from_rest)
qed

section \<open>Properties of the import resolver and the template rewriter\<close>

lemmas regex_defs =
  match_here_def exec_def match_js_def replace_first_def Plus_def cls_space_def cls_word_def
  cls_dot_def cls_any_def cls_not_def cls_of_def spaces1_def spaces0_def quote_chars_def
  group_of_def or_empty_def isWhiteSpace_def

lemma locals_import_records:
  "import_records (transform_locals h st code ident)
     = resolveImports (or_empty (group_of (match_js code scriptMatch) 1))"
  by (simp add: transform_locals_def Let_def)

lemma script_two_imports:
  \<open>or_empty (group_of (match_js
       (js ''<script>import A from "./a.js"; import B from "./b.olova"</script>'')
       scriptMatch) 1)
    = js ''import A from "./a.js"; import B from "./b.olova"''\<close>
  by (simp add: scriptMatch_def regex_defs js_def)

text \<open>
  C4 fails on the code. The script of this source imports \<open>A\<close> from a file of
  another kind and then, on the same line, \<open>B\<close> from a component file. The path group
  \<open>(.+?)\<close> of the import pattern runs over the closing quote of the first import up
  to the \<open>.olova\<close> of the second, so the one record made is named \<open>A\<close>, its path is
  the text from \<open>./a.js\<close> to \<open>./b.olova\<close>, and \<open>B\<close> has no record.
\<close>

theorem import_on_same_line_tracked:
  \<open>import_records (transform_locals h st
       (js ''<script>import A from "./a.js"; import B from "./b.olova"</script>'') ident)
   = [\<lparr>name = js ''A'', path = js ''./a.js"; import B from "./b.olova''\<rparr>]\<close>
  unfolding locals_import_records script_two_imports
  by (simp add: resolveImports_def importRegex_def import_of_def exec_loop.simps regex_defs js_def)

text \<open>
  C5: rewriting the template \<open><Card title="x">Hi</Card>\<close> with an import record named
  \<open>Card\<close> gives a \<open>div\<close> whose \<open>data-component\<close> attribute is \<open>Card\<close>, followed by
  the original attribute \<open>title="x"\<close>, with \<open>Hi\<close> as its content.
\<close>

theorem card_placeholder:
  \<open>rewriteTemplate [\<lparr>name = js ''Card'', path = p\<rparr>] (js ''<Card title="x">Hi</Card>'')
   = js ''<div data-component="Card"  title="x">Hi</div>''\<close>
  by (simp add: rewriteTemplate_def componentTagRegex_def tag_attrs_def componentPlaceholder_def
        regex_defs js_def)

section \<open>Properties of the aggregator\<close>

lemma foldl_bundle_entry:
  \<open>foldl bundle_entry acc m
    = acc @ concat (map (\<lambda>(componentName, css).
          js ''/* '' @ componentName @ js '' Component Styles */\<newline>\<newline>'' @ css
            @ js ''\<newline>\<newline>\<newline>\<newline>'') m)\<close>
  by (induction m arbitrary: acc) (auto simp: bundle_entry_def js_def)

lemma transform_state:
  "endsWith ident (js ''.olova'') \<Longrightarrow>
   fst (transform h st code ident)
     = (if styleContent (transform_locals h st code ident) \<noteq> []
        then st\<lparr>allCssContent :=
               map_set (componentName (transform_locals h st code ident))
                 (processedStyle (transform_locals h st code ident)) (allCssContent st)\<rparr>
        else st)"
  by (simp add: transform_def Let_def)

lemma locals_ignore_css:
  "transform_locals h (st\<lparr>allCssContent := m\<rparr>) code ident = transform_locals h st code ident"
  by (simp add: transform_locals_def)

lemma locals_componentName:
  "componentName (transform_locals h st code ident)
     = toUpperCase h (take 1 (path_basename h ident (js ''.olova'')))
       @ drop 1 (path_basename h ident (js ''.olova''))"
  by (simp add: transform_locals_def Let_def)

lemma locals_processedStyle:
  "processedStyle (transform_locals h st code ident)
     = (if group_of (match_js code styleMatch) 1 \<noteq> None
        then transformScopedCss (or_empty (group_of (match_js code styleMatch) 2))
               (js ''data-v-'' @ substring (simpleHash ident) 0 8)
        else or_empty (group_of (match_js code styleMatch) 2))"
  by (simp add: transform_locals_def Let_def)

lemma locals_styleContent:
  "styleContent (transform_locals h st code ident)
     = or_empty (group_of (match_js code styleMatch) 2)"
  by (simp add: transform_locals_def Let_def)

text \<open>
  C6: when the map is not empty, \<open>generateBundle\<close> emits one asset at
  \<open>assets/style.css\<close> whose text is the concatenation, in the order of the map, of
  \<open>/* Name Component Styles */\<close>, two line feeds, the processed style and four line
  feeds. After \<open>buildStart\<close>, compiling two components with styles and different
  names leaves their two blocks in the asset, in compile order.
\<close>

theorem combined_stylesheet:
  \<open>(allCssContent st \<noteq> [] \<longrightarrow>
      generateBundle st
        = Some \<lparr>file_type = js ''asset'', fileName = js ''assets/style.css'',
                source = concat (map (\<lambda>(componentName, css).
                   js ''/* '' @ componentName @ js '' Component Styles */\<newline>\<newline>'' @ css
                     @ js ''\<newline>\<newline>\<newline>\<newline>'') (allCssContent st))\<rparr>)
   \<and> (endsWith idA (js ''.olova'') \<and> endsWith idB (js ''.olova'')
        \<and> styleContent (transform_locals h st codeA idA) \<noteq> []
        \<and> styleContent (transform_locals h st codeB idB) \<noteq> []
        \<and> componentName (transform_locals h st codeA idA)
            \<noteq> componentName (transform_locals h st codeB idB) \<longrightarrow>
      generateBundle (fst (transform h (fst (transform h (buildStart st) codeA idA)) codeB idB))
        = Some \<lparr>file_type = js ''asset'', fileName = js ''assets/style.css'',
                source =
                  js ''/* '' @ componentName (transform_locals h st codeA idA)
                    @ js '' Component Styles */\<newline>\<newline>''
                    @ processedStyle (transform_locals h st codeA idA)
                    @ js ''\<newline>\<newline>\<newline>\<newline>''
                  @ js ''/* '' @ componentName (transform_locals h st codeB idB)
                    @ js '' Component Styles */\<newline>\<newline>''
                    @ processedStyle (transform_locals h st codeB idB)
                    @ js ''\<newline>\<newline>\<newline>\<newline>''\<rparr>)\<close>
proof (intro conjI impI)
  assume "allCssContent st \<noteq> []"
  then show \<open>generateBundle st
        = Some \<lparr>file_type = js ''asset'', fileName = js ''assets/style.css'',
                source = concat (map (\<lambda>(componentName, css).
                   js ''/* '' @ componentName @ js '' Component Styles */\<newline>\<newline>'' @ css
                     @ js ''\<newline>\<newline>\<newline>\<newline>'') (allCssContent st))\<rparr>\<close>
    by (simp add: generateBundle_def foldl_bundle_entry)
next
  assume \<open>endsWith idA (js ''.olova'') \<and> endsWith idB (js ''.olova'')
        \<and> styleContent (transform_locals h st codeA idA) \<noteq> []
        \<and> styleContent (transform_locals h st codeB idB) \<noteq> []
        \<and> componentName (transform_locals h st codeA idA)
            \<noteq> componentName (transform_locals h st codeB idB)\<close>
  then show \<open>generateBundle
          (fst (transform h (fst (transform h (buildStart st) codeA idA)) codeB idB))
        = Some \<lparr>file_type = js ''asset'', fileName = js ''assets/style.css'',
                source =
                  js ''/* '' @ componentName (transform_locals h st codeA idA)
                    @ js '' Component Styles */\<newline>\<newline>''
                    @ processedStyle (transform_locals h st codeA idA)
                    @ js ''\<newline>\<newline>\<newline>\<newline>''
                  @ js ''/* '' @ componentName (transform_locals h st codeB idB)
                    @ js '' Component Styles */\<newline>\<newline>''
                    @ processedStyle (transform_locals h st codeB idB)
                    @ js ''\<newline>\<newline>\<newline>\<newline>''\<rparr>\<close>
    by (simp add: generateBundle_def bundle_entry_def transform_state buildStart_def
          locals_ignore_css js_def)
qed

lemma style_a: "match_js (js ''<style>.a{}</style>'') styleMatch = Some [2 \<mapsto> js ''.a{}'']"
  by (simp add: styleMatch_def regex_defs js_def)

lemma style_b: "match_js (js ''<style>.b{}</style>'') styleMatch = Some [2 \<mapsto> js ''.b{}'']"
  by (simp add: styleMatch_def regex_defs js_def)

lemma name_a: "componentName (transform_locals example_host st code (js ''a.olova'')) = js ''A''"
  by (simp add: locals_componentName example_host_def example_basename_def
        example_toUpperCase_def split_js_def endsWith_def js_def)

lemma name_b: "componentName (transform_locals example_host st code (js ''b.olova'')) = js ''B''"
  by (simp add: locals_componentName example_host_def example_basename_def
        example_toUpperCase_def split_js_def endsWith_def js_def)

theorem combined_stylesheet_witness:
  \<open>allCssContent \<lparr>allCssContent = [(js ''A'', js ''.a{}'')], isProd = True\<rparr> \<noteq> []
   \<and> generateBundle \<lparr>allCssContent = [(js ''A'', js ''.a{}'')], isProd = True\<rparr>
       = Some \<lparr>file_type = js ''asset'', fileName = js ''assets/style.css'',
               source = js ''/* A Component Styles */\<newline>\<newline>.a{}\<newline>\<newline>\<newline>\<newline>''\<rparr>
   \<and> endsWith (js ''a.olova'') (js ''.olova'') \<and> endsWith (js ''b.olova'') (js ''.olova'')
   \<and> generateBundle (fst (transform example_host
         (fst (transform example_host
            (buildStart \<lparr>allCssContent = [(js ''Old'', js ''p{}'')], isProd = True\<rparr>)
            (js ''<style>.a{}</style>'') (js ''a.olova'')))
         (js ''<style>.b{}</style>'') (js ''b.olova'')))
       = Some \<lparr>file_type = js ''asset'', fileName = js ''assets/style.css'',
               source = js ''/* A Component Styles */\<newline>\<newline>.a{}\<newline>\<newline>\<newline>\<newline>/* B Component Styles */\<newline>\<newline>.b{}\<newline>\<newline>\<newline>\<newline>''\<rparr>\<close>
proof -
  let ?st = "\<lparr>allCssContent = [(js ''Old'', js ''p{}'')], isProd = True\<rparr>"
  let ?a = "js ''<style>.a{}</style>''"
  let ?b = "js ''<style>.b{}</style>''"
  have e: "endsWith (js ''a.olova'') (js ''.olova'')" "endsWith (js ''b.olova'') (js ''.olova'')"
    by (simp_all add: endsWith_def js_def)
  have sa: "styleContent (transform_locals example_host ?st ?a (js ''a.olova'')) = js ''.a{}''"
    by (simp add: locals_styleContent style_a group_of_def or_empty_def)
  have sb: "styleContent (transform_locals example_host ?st ?b (js ''b.olova'')) = js ''.b{}''"
    by (simp add: locals_styleContent style_b group_of_def or_empty_def)
  have pa: "processedStyle (transform_locals example_host ?st ?a (js ''a.olova'')) = js ''.a{}''"
    by (simp add: locals_processedStyle style_a group_of_def or_empty_def)
  have pb: "processedStyle (transform_locals example_host ?st ?b (js ''b.olova'')) = js ''.b{}''"
    by (simp add: locals_processedStyle style_b group_of_def or_empty_def)
  have ne: "js ''.a{}'' \<noteq> []" "js ''.b{}'' \<noteq> []" "js ''A'' \<noteq> js ''B''"
    by (simp_all add: js_def)
  show ?thesis
    using combined_stylesheet
            [of "\<lparr>allCssContent = [(js ''A'', js ''.a{}'')], isProd = True\<rparr>"
                "js ''a.olova''" "js ''b.olova''"]
      combined_stylesheet [of ?st "js ''a.olova''" "js ''b.olova''" example_host ?a ?b]
    by (simp add: e sa sb pa pb ne name_a name_b) (simp add: js_def)
qed

section \<open>Properties of \<open>mount\<close>\<close>

text \<open>
  C7: when the selector finds no node, \<open>mount\<close> writes \<open>Target element "..." not found\<close>
  to the error console and returns the function that does nothing; the component does
  not enter the result, so it is not invoked. When the selector finds a node, \<open>mount\<close>
  empties the node, invokes the component on it in the document so changed, and returns
  what the component returns.
\<close>

theorem mount_behaviour:
  \<open>(querySelector doc w selector = Inr None \<longrightarrow>
      mount doc componentMount selector props w
        = Inr (NoOp, console_error doc (js ''Target element "'' @ selector @ js ''" not found'') w))
   \<and> (querySelector doc w selector = Inr (Some n) \<longrightarrow>
      mount doc componentMount selector props w
        = (case componentMount n (case props of None \<Rightarrow> emptyObject doc | Some p \<Rightarrow> p)
                  (set_innerHTML doc n [] w) of
             Inl e \<Rightarrow> Inl e
           | Inr (u, w') \<Rightarrow> Inr (FromComponent u, w')))\<close>
  by (simp add: mount_def notFoundMessage_def Let_def)

theorem mount_behaviour_witness:
  \<open>querySelector example_document (\<lambda>n. js ''old'', []) (js ''#none'') = Inr None
   \<and> mount example_document example_component (js ''#none'') None (\<lambda>n. js ''old'', [])
       = Inr (NoOp, (\<lambda>n. js ''old'', [js ''Target element "#none" not found'']))
   \<and> querySelector example_document (\<lambda>n. js ''old'', []) (js ''#app'') = Inr (Some 0)
   \<and> mount example_document example_component (js ''#app'') None (\<lambda>n. js ''old'', [])
       = Inr (FromComponent 0, ((\<lambda>n. js ''old'')(0 := js ''<div></div>''), []))\<close>
  using mount_behaviour
          [of example_document "(\<lambda>n. js ''old'', [])" "js ''#none''" example_component None 0]
    mount_behaviour
          [of example_document "(\<lambda>n. js ''old'', [])" "js ''#app''" example_component None 0]
  by (simp add: example_document_def example_component_def js_def)

section \<open>Properties of the emitted module\<close>

lemma locals_no_style:
  assumes "match_js code styleMatch = None"
  shows "styleContent (transform_locals h st code ident) = []"
    and "isScoped (transform_locals h st code ident) = False"
    and "cssCode (transform_locals h st code ident) = []"
  using assms by (simp_all add: transform_locals_def Let_def group_of_def or_empty_def)

text \<open>A source that does not hold the text \<open><style\<close> has no style section.\<close>

lemma not_includes_Cons:
  assumes "\<not> includes_js (x # xs) p"
  shows "\<not> includes_js xs p" and "\<not> startsWith (x # xs) p"
  using assms indexOf_lower [of xs p]
  by (auto simp: includes_js_def Let_def split: if_splits)

lemma not_includes_Nil: "\<not> includes_js [] p \<Longrightarrow> \<not> startsWith [] p"
  by (cases p) (auto simp: includes_js_def)

lemma exec_from_literal_absent:
  "\<not> includes_js s l \<Longrightarrow> exec_from (Seq (Lit l) r) skipped s = None"
proof (induction s arbitrary: skipped)
  case Nil
  then show ?case using not_includes_Nil [of l] by (simp add: match_here_def)
next
  case (Cons x xs)
  then show ?case using not_includes_Cons [of x xs l] by (simp add: match_here_def)
qed

lemma no_style_tag:
  assumes "\<not> includes_js code (js ''<style'')"
  shows "match_js code styleMatch = None"
  using exec_from_literal_absent [OF assms]
  by (simp add: match_js_def exec_def styleMatch_def)

text \<open>
  C8: for a component source in which the style pattern finds no style section (as in
  every source without the text \<open><style\<close>, by \<open>no_style_tag\<close>), the
  style-injection code is empty, the emitted module is the module text with nothing in
  the place of that code, and \<open>transform\<close> leaves the state of the plugin, the map of
  styles included, as it was: a map without an entry for the component is still
  without one.
\<close>

theorem no_style_section:
  assumes "endsWith ident (js ''.olova'')" and "match_js code styleMatch = None"
  shows "cssCode (transform_locals h st code ident) = []
    \<and> transform h st code ident
      = (st, Some \<lparr>result_code =
                     resultCodeText (import_records (transform_locals h st code ident))
                       (componentName (transform_locals h st code ident)) [] False
                       (scopeId (transform_locals h st code ident))
                       (escapedHtmlContent (transform_locals h st code ident))
                       (modifiedScriptContent (transform_locals h st code ident)),
                   result_map = None\<rparr>)
    \<and> (componentName (transform_locals h st code ident) \<notin> fst ` set (allCssContent st) \<longrightarrow>
         componentName (transform_locals h st code ident)
           \<notin> fst ` set (allCssContent (fst (transform h st code ident))))"
  using assms(1) locals_no_style [OF assms(2), of h st ident]
  by (simp add: transform_def Let_def)

lemma hello_no_style: "match_js (js ''<p>Hello</p>'') styleMatch = None"
  by (simp add: styleMatch_def regex_defs js_def)

lemma app_is_component: "endsWith (js ''/src/App.olova'') (js ''.olova'')"
  by (simp add: endsWith_def js_def)

theorem no_style_section_witness:
  "endsWith (js ''/src/App.olova'') (js ''.olova'')
   \<and> match_js (js ''<p>Hello</p>'') styleMatch = None
   \<and> cssCode (transform_locals example_host \<lparr>allCssContent = [], isProd = False\<rparr>
         (js ''<p>Hello</p>'') (js ''/src/App.olova'')) = []
   \<and> fst (transform example_host \<lparr>allCssContent = [], isProd = False\<rparr>
         (js ''<p>Hello</p>'') (js ''/src/App.olova'')) = \<lparr>allCssContent = [], isProd = False\<rparr>
   \<and> componentName (transform_locals example_host \<lparr>allCssContent = [], isProd = False\<rparr>
         (js ''<p>Hello</p>'') (js ''/src/App.olova''))
       \<notin> fst ` set (allCssContent \<lparr>allCssContent = [], isProd = False\<rparr>)
   \<and> componentName (transform_locals example_host \<lparr>allCssContent = [], isProd = False\<rparr>
         (js ''<p>Hello</p>'') (js ''/src/App.olova''))
       \<notin> fst ` set (allCssContent (fst (transform example_host
             \<lparr>allCssContent = [], isProd = False\<rparr> (js ''<p>Hello</p>'')
             (js ''/src/App.olova''))))"
  using no_style_section [OF app_is_component hello_no_style, of example_host
          "\<lparr>allCssContent = [], isProd = False\<rparr>"]
  by (simp add: app_is_component hello_no_style)

text \<open>
  C9: the module emitted for a component file declares the factory function
  \<open>NameComponent\<close>, whose body holds the style-injection code and returns the function
  that takes the target element, and the last statement of the module is
  \<open>export default NameComponent();\<close>: the default export is the result of calling the
  factory, not the factory.
\<close>

theorem default_export_is_invoked:
  assumes "endsWith ident (js ''.olova'')"
  shows "\<exists>prelude body.
     snd (transform h st code ident)
       = Some \<lparr>result_code =
           prelude
           @ js ''function '' @ componentName (transform_locals h st code ident)
           @ js ''Component() {\<newline>          ''
           @ cssCode (transform_locals h st code ident)
           @ js ''\<newline>          \<newline>          // Return a function that will mount the component and run its script\<newline>          return function(targetElement) {\<newline>''
           @ body
           @ js ''          };\<newline>        }\<newline>        \<newline>        // Export the component directly without using registerComponent\<newline>        export default ''
           @ componentName (transform_locals h st code ident)
           @ js ''Component();\<newline>      '',
         result_map = None\<rparr>"
  apply (rule exI [of _ "modulePrelude (import_records (transform_locals h st code ident))"])
  apply (rule exI [of _ "mountBody (import_records (transform_locals h st code ident))
      (componentName (transform_locals h st code ident))
      (isScoped (transform_locals h st code ident))
      (scopeId (transform_locals h st code ident))
      (escapedHtmlContent (transform_locals h st code ident))
      (modifiedScriptContent (transform_locals h st code ident))"])
  using assms
  apply (simp add: transform_def Let_def resultCodeText_def)
  apply (simp add: js_def)
  done

lemma name_app:
  "componentName (transform_locals example_host st code (js ''/src/App.olova'')) = js ''App''"
  by (simp add: locals_componentName example_host_def example_basename_def
        example_toUpperCase_def split_js_def endsWith_def js_def)

theorem default_export_is_invoked_witness:
  "endsWith (js ''/src/App.olova'') (js ''.olova'')
   \<and> (\<exists>prelude body.
     snd (transform example_host \<lparr>allCssContent = [], isProd = False\<rparr> (js ''<p>Hello</p>'')
            (js ''/src/App.olova''))
       = Some \<lparr>result_code =
           prelude
           @ js ''function AppComponent() {\<newline>          ''
           @ js ''\<newline>          \<newline>          // Return a function that will mount the component and run its script\<newline>          return function(targetElement) {\<newline>''
           @ body
           @ js ''          };\<newline>        }\<newline>        \<newline>        // Export the component directly without using registerComponent\<newline>        export default AppComponent();\<newline>      '',
         result_map = None\<rparr>)"
  using default_export_is_invoked [OF app_is_component, of example_host
          "\<lparr>allCssContent = [], isProd = False\<rparr>" "js ''<p>Hello</p>''"]
    locals_no_style(3) [OF hello_no_style, of example_host
          "\<lparr>allCssContent = [], isProd = False\<rparr>" "js ''/src/App.olova''"]
  by (simp add: app_is_component name_app) (simp add: js_def)

end
